theory Spec2Isabelle
  imports Main "HOL-Library.AList"
begin

section \<open>Adventurer Wiki: data model\<close>

text \<open>
  The module \<^verbatim>\<open>adventurer-wiki/scripts/party-wiki.js\<close> keeps one collection of wiki
  entries in a world-scoped setting of the host, relays the writes of players through a
  connected GM, and tracks who is editing which entry in an in-memory map.  The source
  file holds two revisions of the script one after the other (lines 1 to 1066 and lines
  1068 to 2410); the functions embedded below have the same statements in both, except
  \<^verbatim>\<open>PartyWikiApp._prepareContext\<close>, of which both revisions are embedded.

  JavaScript objects become records.  A field that the code reads through \<^verbatim>\<open>??\<close> or
  \<^verbatim>\<open>?.\<close>, or whose presence matters, is an option (\<open>None\<close>: the object has no such
  field).  The field \<^verbatim>\<open>hidden\<close> is only ever read for its truthiness, so an absent
  \<^verbatim>\<open>hidden\<close> is \<open>False\<close>.  Strings are lists of characters (code units below 256).
\<close>

record comment =
  comment_id :: string
  authorName :: string
  comment_userId :: string
  comment_text :: string
  comment_createdAt :: int

record entry =
  entry_id :: string
  title :: string
  category :: string
  content :: string
  hidden :: bool
  pendingDelete :: bool
  createdAt :: int
  updatedAt :: int
  createdBy :: string
  updatedBy :: string
  gmNotes :: "string option"
  comments :: "comment list option"

record category_rec =
  cat_id :: string
  label :: "string option"
  icon :: string

text \<open>The value of one key of the map \<^verbatim>\<open>activeEditors\<close>.\<close>

record session =
  userName :: string
  userId :: string

text \<open>A user of the host: \<^verbatim>\<open>game.user\<close> and the members of \<^verbatim>\<open>game.users\<close>.\<close>

record user_rec =
  user_id :: string
  user_name :: string
  isGM :: bool
  active :: bool

text \<open>The messages of the socket channel \<^verbatim>\<open>module.adventurer-wiki\<close>, by their \<^verbatim>\<open>action\<close>.\<close>

datatype payload =
    RequestSave "entry list"
  | Refresh
  | CategoriesChanged
  | EditingStart string string string
  | EditingStop string string

text \<open>
  What one client sees of the host and of the module's globals: the current user, the
  user list, the two world settings, the map \<^verbatim>\<open>activeEditors\<close>, and a log of every
  effect the code has on the host (messages emitted on the socket, notifications shown,
  calls of \<^verbatim>\<open>refreshAllWikiApps\<close>).  The setting \<^verbatim>\<open>wikiCategories\<close> is \<open>None\<close> when
  reading it throws or gives something that is not an array.

  The \<^verbatim>\<open>Map\<close> of JavaScript is the list of its entries in insertion order, each key
  once: \<^verbatim>\<open>get\<close> is \<^const>\<open>map_of\<close>, \<^verbatim>\<open>set\<close> is \<^const>\<open>AList.update\<close> (a new key
  goes to the end, an old key keeps its place) and \<^verbatim>\<open>delete\<close> is \<^const>\<open>AList.delete\<close>.
\<close>

record client =
  user :: user_rec
  users :: "user_rec list"
  wikiEntries :: "entry list"
  wikiCategories :: "category_rec list option"
  activeEditors :: "(string \<times> session) list"
  emitted :: "payload list"
  warnings :: "string list"
  infos :: "string list"
  refreshes :: nat

section \<open>Host primitives\<close>

definition socket_emit :: "payload \<Rightarrow> client \<Rightarrow> client" where
  "socket_emit p s = s\<lparr>emitted := emitted s @ [p]\<rparr>"

definition notify_warn :: "string \<Rightarrow> client \<Rightarrow> client" where
  "notify_warn msg s = s\<lparr>warnings := warnings s @ [msg]\<rparr>"

definition notify_info :: "string \<Rightarrow> client \<Rightarrow> client" where
  "notify_info msg s = s\<lparr>infos := infos s @ [msg]\<rparr>"

definition refreshAllWikiApps :: "client \<Rightarrow> client" where
  "refreshAllWikiApps s = s\<lparr>refreshes := Suc (refreshes s)\<rparr>"

text \<open>
  \<^verbatim>\<open>game.settings.set(MODULE_ID, SETTING_KEY, entries)\<close>.  The write itself always
  succeeds here: whether the host lets this user write a world setting is decided by the
  host, outside the module.
\<close>

definition settings_set_entries :: "entry list \<Rightarrow> client \<Rightarrow> client" where
  "settings_set_entries es s = s\<lparr>wikiEntries := es\<rparr>"

text \<open>\<^verbatim>\<open>game.settings.set(MODULE_ID, CATS_SETTING_KEY, cats)\<close>\<close>

definition settings_set_categories :: "category_rec list \<Rightarrow> client \<Rightarrow> client" where
  "settings_set_categories cs s = s\<lparr>wikiCategories := Some cs\<rparr>"

section \<open>Entry store accessor and write gateway\<close>

text \<open>
  \<^verbatim>\<open>getEntries\<close> returns a deep clone of the stored array; values of HOL are never
  aliased, so the clone is the value itself.
\<close>

definition getEntries :: "client \<Rightarrow> entry list" where
  "getEntries s = wikiEntries s"

definition NO_GM_WARNING :: string where
  "NO_GM_WARNING = ''Adventurer Wiki: A GM must be connected to save. Your work is still in the editor - please try again once a GM joins.''"

text \<open>
  \<^verbatim>\<open>saveEntries(entries)\<close>: the result is the returned boolean (\<open>False\<close>: blocked) and the
  client afterwards.  The warning is the text of the source, with its dash written as a
  hyphen.
\<close>

definition saveEntries :: "entry list \<Rightarrow> client \<Rightarrow> bool \<times> client" where
  "saveEntries entries s =
     (if isGM (user s) then
        (True, refreshAllWikiApps (socket_emit Refresh (settings_set_entries entries s)))
      else
        (case find (\<lambda>u. isGM u \<and> active u) (users s) of
           None \<Rightarrow> (False, notify_warn NO_GM_WARNING s)
         | Some activeGM \<Rightarrow> (True, socket_emit (RequestSave entries) s)))"

section \<open>Socket handler and presence tracker\<close>

text \<open>The handler registered with \<^verbatim>\<open>game.socket.on(SOCKET_EVENT, ...)\<close>.\<close>

fun onSocket :: "payload \<Rightarrow> client \<Rightarrow> client" where
  "onSocket (RequestSave es) s =
     (if \<not> isGM (user s) then s
      else refreshAllWikiApps (socket_emit Refresh (settings_set_entries es s)))"
| "onSocket Refresh s = refreshAllWikiApps s"
| "onSocket CategoriesChanged s = refreshAllWikiApps s"
| "onSocket (EditingStart entryId uName uId) s =
     refreshAllWikiApps
       (s\<lparr>activeEditors :=
            AList.update entryId \<lparr>userName = uName, userId = uId\<rparr> (activeEditors s)\<rparr>)"
| "onSocket (EditingStop entryId uId) s =
     (case map_of (activeEditors s) entryId of
        None \<Rightarrow> s
      | Some cur \<Rightarrow>
          if userId cur = uId
          then refreshAllWikiApps (s\<lparr>activeEditors := AList.delete entryId (activeEditors s)\<rparr>)
          else s)"

text \<open>
  The hook \<^verbatim>\<open>userConnected(user, connected)\<close>.  Its loop visits the entries that the
  map has when the loop starts, in their order, and deletes from the map the key of
  every visited entry whose session belongs to the user.
\<close>

definition release_locks :: "string \<Rightarrow> (string \<times> session) list \<Rightarrow> (string \<times> session) list" where
  "release_locks uid m =
     fold (\<lambda>(k, sess) acc. if userId sess = uid then AList.delete k acc else acc) m m"

definition userConnected :: "user_rec \<Rightarrow> bool \<Rightarrow> client \<Rightarrow> client" where
  "userConnected u connected s =
     (if \<not> connected
      then refreshAllWikiApps (s\<lparr>activeEditors := release_locks (user_id u) (activeEditors s)\<rparr>)
      else s)"

section \<open>String operations\<close>

text \<open>
  A character is a code unit below 256, read as the code point of that number (U+0000 to
  U+00FF).  On strings of such characters the operations below agree with JavaScript;
  text with larger code units has no counterpart here.

  \<^verbatim>\<open>String.prototype.toLowerCase\<close>: the upper-case letters of this range are \<^verbatim>\<open>A\<close> to
  \<^verbatim>\<open>Z\<close> and U+00C0 to U+00DE without the multiplication sign U+00D7; each has its
  lower-case letter 32 places above.
\<close>

definition toLowerCase :: "string \<Rightarrow> string" where
  "toLowerCase s =
     map (\<lambda>c. if (65 \<le> (of_char c :: nat) \<and> (of_char c :: nat) \<le> 90)
                  \<or> (192 \<le> (of_char c :: nat) \<and> (of_char c :: nat) \<le> 222
                      \<and> (of_char c :: nat) \<noteq> 215)
               then char_of ((of_char c :: nat) + 32)
               else c) s"

text \<open>
  \<^verbatim>\<open>String.prototype.trim\<close> strips white space and line terminators.  Below 256 these
  are tab, line feed, vertical tab, form feed, carriage return, space and the no-break
  space U+00A0.
\<close>

definition isWhiteSpace :: "char \<Rightarrow> bool" where
  "isWhiteSpace c =
     (c \<in> set [CHR 0x09, CHR 0x0A, CHR 0x0B, CHR 0x0C, CHR 0x0D, CHR 0x20, CHR 0xA0])"

definition trim :: "string \<Rightarrow> string" where
  "trim s = rev (dropWhile isWhiteSpace (rev (dropWhile isWhiteSpace s)))"

text \<open>\<^verbatim>\<open>s.includes(q)\<close>: \<open>q\<close> occurs in \<open>s\<close> as a contiguous substring.\<close>

fun includes_str :: "string \<Rightarrow> string \<Rightarrow> bool" where
  "includes_str [] q = (q = [])"
| "includes_str (c # cs) q = (take (length q) (c # cs) = q \<or> includes_str cs q)"

text \<open>
  The truthiness of a string that may be \<^verbatim>\<open>null\<close> or \<^verbatim>\<open>undefined\<close>: only a
  non-empty string is truthy.
\<close>

definition truthy :: "string option \<Rightarrow> bool" where
  "truthy v = (case v of None \<Rightarrow> False | Some x \<Rightarrow> x \<noteq> [])"

text \<open>
  \<^verbatim>\<open>s.replace(/<[^>]*>/g, " ")\<close>: at a \<^verbatim>\<open><\<close> the pattern matches up to the next
  \<^verbatim>\<open>>\<close>; where there is none, the character is kept.
\<close>

function stripTags :: "string \<Rightarrow> string" where
  "stripTags [] = []"
| "stripTags (c # cs) =
     (if c = CHR ''<'' then
        (case dropWhile (\<lambda>d. d \<noteq> CHR ''>'') cs of
           [] \<Rightarrow> c # stripTags cs
         | d # rest \<Rightarrow> CHR '' '' # stripTags rest)
      else c # stripTags cs)"
  by pat_completeness auto
termination
proof (relation "measure length")
  fix c :: char and cs d rest
  assume "dropWhile (\<lambda>d. d \<noteq> CHR ''>'') cs = d # rest"
  then have "length (d # rest) \<le> length cs"
    using length_dropWhile_le [of "\<lambda>d. d \<noteq> CHR ''>''" cs] by simp
  then show "(rest, c # cs) \<in> measure length" by simp
qed auto

text \<open>\<^verbatim>\<open>Array.prototype.findIndex\<close>, with \<open>None\<close> for \<^verbatim>\<open>-1\<close>.\<close>

fun findIndex :: "('a \<Rightarrow> bool) \<Rightarrow> 'a list \<Rightarrow> nat option" where
  "findIndex P [] = None"
| "findIndex P (x # xs) = (if P x then Some 0 else map_option Suc (findIndex P xs))"

text \<open>\<^verbatim>\<open>e.comments ?? []\<close>\<close>

definition commentsOrEmpty :: "entry \<Rightarrow> comment list" where
  "commentsOrEmpty e = (case comments e of None \<Rightarrow> [] | Some cs \<Rightarrow> cs)"

section \<open>Cross-reference links\<close>

text \<open>
  One match of \<^verbatim>\<open>/\[\[([^\]]+)\]\]/\<close> at the start of a string: the captured title
  and the text after the match.  The class \<^verbatim>\<open>[^\]]+\<close> takes every character up to the
  next \<^verbatim>\<open>]\<close>, and a shorter run cannot be followed by \<^verbatim>\<open>]]\<close>.
\<close>

definition matchLink :: "string \<Rightarrow> (string \<times> string) option" where
  "matchLink s =
     (case s of
        c1 # c2 # cs \<Rightarrow>
          if c1 = CHR ''['' \<and> c2 = CHR ''['' then
            (case dropWhile (\<lambda>d. d \<noteq> CHR '']'') cs of
               d1 # d2 # rest \<Rightarrow>
                 if takeWhile (\<lambda>d. d \<noteq> CHR '']'') cs \<noteq> [] \<and> d2 = CHR '']''
                 then Some (takeWhile (\<lambda>d. d \<noteq> CHR '']'') cs, rest)
                 else None
             | _ \<Rightarrow> None)
          else None
      | _ \<Rightarrow> None)"

definition linkResolved :: "entry \<Rightarrow> string \<Rightarrow> string" where
  \<open>linkResolved linked t = ''<a class="wiki-entry-link" data-id="'' @ entry_id linked @ ''">'' @ t @ ''</a>''\<close>

definition linkMissing :: "string \<Rightarrow> string" where
  \<open>linkMissing t =
     ''<a class="wiki-entry-link wiki-entry-link-missing" title="No entry found: '' @ t @ ''">'' @ t @ ''</a>''\<close>

text \<open>The replacement callback of \<^verbatim>\<open>processEntryLinks\<close>.\<close>

definition replaceLink :: "entry list \<Rightarrow> string \<Rightarrow> string" where
  "replaceLink allEntries rawTitle =
     (case find (\<lambda>e. toLowerCase (title e) = toLowerCase (trim rawTitle)) allEntries of
        Some linked \<Rightarrow> linkResolved linked (trim rawTitle)
      | None \<Rightarrow> linkMissing (trim rawTitle))"

text \<open>The global replace: matches are taken from left to right and do not overlap.\<close>

function replaceLinks :: "entry list \<Rightarrow> string \<Rightarrow> string" where
  "replaceLinks allEntries [] = []"
| "replaceLinks allEntries (c # cs) =
     (case matchLink (c # cs) of
        Some (raw, rest) \<Rightarrow> replaceLink allEntries raw @ replaceLinks allEntries rest
      | None \<Rightarrow> c # replaceLinks allEntries cs)"
  by pat_completeness auto
termination
proof (relation "measure (\<lambda>(allEntries, s). length s)")
  fix allEntries :: "entry list" and c :: char and cs x2 raw rest
  assume m: "matchLink (c # cs) = Some x2" and x: "(raw, rest) = x2"
  have "length rest < length (c # cs)"
  proof (cases cs)
    case Nil
    with m show ?thesis by (simp add: matchLink_def)
  next
    case (Cons c2 tl)
    have "length (dropWhile (\<lambda>d. d \<noteq> CHR '']'') tl) \<le> length tl"
      by (rule length_dropWhile_le)
    with m x Cons show ?thesis
      by (auto simp: matchLink_def split: if_splits list.splits)
  qed
  then show "((allEntries, rest), allEntries, c # cs) \<in> measure (\<lambda>(allEntries, s). length s)"
    by simp
qed auto

text \<open>\<^verbatim>\<open>processEntryLinks(html, allEntries)\<close>; \<open>None\<close> is \<^verbatim>\<open>null\<close>.\<close>

definition processEntryLinks :: "string option \<Rightarrow> entry list \<Rightarrow> string option" where
  "processEntryLinks html allEntries =
     (case html of
        None \<Rightarrow> None
      | Some h \<Rightarrow> if h = [] then Some h else Some (replaceLinks allEntries h))"

section \<open>Categories\<close>

definition DEFAULT_CATEGORIES :: "category_rec list" where
  "DEFAULT_CATEGORIES =
     [\<lparr>cat_id = ''lore'', label = Some ''Lore'', icon = ''fa-book-open''\<rparr>,
      \<lparr>cat_id = ''locations'', label = Some ''Locations'', icon = ''fa-map-location-dot''\<rparr>,
      \<lparr>cat_id = ''npcs'', label = Some ''NPCs'', icon = ''fa-person''\<rparr>,
      \<lparr>cat_id = ''factions'', label = Some ''Factions'', icon = ''fa-shield-halved''\<rparr>,
      \<lparr>cat_id = ''quests'', label = Some ''Quests'', icon = ''fa-map-pin''\<rparr>,
      \<lparr>cat_id = ''items'', label = Some ''Items'', icon = ''fa-gem''\<rparr>,
      \<lparr>cat_id = ''notes'', label = Some ''Session Notes'', icon = ''fa-scroll''\<rparr>]"

definition getCategories :: "client \<Rightarrow> category_rec list" where
  "getCategories s =
     (case wikiCategories s of
        None \<Rightarrow> DEFAULT_CATEGORIES
      | Some stored \<Rightarrow> if stored \<noteq> [] then stored else DEFAULT_CATEGORIES)"

section \<open>View projection\<close>

text \<open>
  The functions of the host that the projection calls: \<^verbatim>\<open>TextEditor.enrichHTML\<close> and
  \<^verbatim>\<open>Date.prototype.toLocaleString\<close>.  They are parameters of the embedding.
\<close>

record host =
  enrichHTML :: "string \<Rightarrow> string"
  toLocaleString :: "int \<Rightarrow> string"

text \<open>The fields of a \<^verbatim>\<open>PartyWikiApp\<close> instance that the projection reads and writes.\<close>

record app =
  activeCat :: "string option"
  selectedEntry :: "string option"
  searchQuery :: string

text \<open>
  The object spreads \<^verbatim>\<open>{ ...e, beingEditedBy, categoryLabel, bodyMatch }\<close>,
  \<^verbatim>\<open>{ ...cat, count }\<close> and \<^verbatim>\<open>{ ...c, createdAtFormatted, canDelete }\<close> are record
  extensions: every field of the spread object is a field of the result.
\<close>

record entry_status = entry +
  beingEditedBy :: "string option"
  categoryLabel :: "string option"
  bodyMatch :: bool

record category_count = category_rec +
  count :: nat

record comment_view = comment +
  createdAtFormatted :: string
  canDelete :: bool

text \<open>The object returned by \<^verbatim>\<open>_prepareContext\<close>; \<open>None\<close> is \<^verbatim>\<open>null\<close>.\<close>

record view_context =
  ctx_categories :: "category_count list"
  ctx_activeCat :: "string option"
  ctx_entries :: "entry_status list"
  ctx_current :: "entry option"
  ctx_currentEditor :: "string option"
  ctx_enrichedContent :: "string option"
  ctx_gmNotes :: "string option"
  ctx_formattedComments :: "comment_view list"
  ctx_hasComments :: bool
  ctx_isGM :: bool
  ctx_gmOnline :: bool
  ctx_searchQuery :: string
  ctx_isSearching :: bool
  ctx_noEntries :: bool
  ctx_pendingDeletions :: nat
  ctx_updatedAtFormatted :: "string option"

datatype js_error = ReferenceError

definition bodyText :: "entry \<Rightarrow> string" where
  "bodyText e = (if content e \<noteq> [] then toLowerCase (stripTags (content e)) else [])"

text \<open>
  \<^verbatim>\<open>_filterEntries(entries, isGM)\<close> of the second revision; the first revision has the
  same filter inline in \<^verbatim>\<open>_prepareContext\<close>.
\<close>

definition filterEntries :: "app \<Rightarrow> entry list \<Rightarrow> bool \<Rightarrow> entry list" where
  "filterEntries a entries gm =
     filter (\<lambda>e.
        if hidden e \<and> \<not> gm then False
        else if toLowerCase (searchQuery a) \<noteq> [] then
          includes_str (toLowerCase (title e)) (toLowerCase (searchQuery a))
          \<or> includes_str (bodyText e) (toLowerCase (searchQuery a))
        else Some (category e) = activeCat a) entries"

text \<open>\<^verbatim>\<open>_formatComments(comments, isGM)\<close>\<close>

definition formatComments :: "host \<Rightarrow> client \<Rightarrow> comment list \<Rightarrow> bool \<Rightarrow> comment_view list" where
  "formatComments h s cs gm =
     map (\<lambda>c. comment.extend c
                 (comment_view.fields (toLocaleString h (comment_createdAt c))
                                      (gm \<or> comment_userId c = user_id (user s)))) cs"

text \<open>The steps of \<^verbatim>\<open>_prepareContext\<close>, in the words of its section comments.\<close>

definition validateActiveCat :: "category_rec list \<Rightarrow> app \<Rightarrow> app" where
  "validateActiveCat cats a =
     (if find (\<lambda>c. Some (cat_id c) = activeCat a) cats = None
      then a\<lparr>activeCat := (case cats of [] \<Rightarrow> None | c # _ \<Rightarrow> Some (cat_id c))\<rparr>
      else a)"

definition validateSelected :: "entry list \<Rightarrow> bool \<Rightarrow> app \<Rightarrow> app" where
  "validateSelected entries gm a =
     (if truthy (selectedEntry a) then
        (case find (\<lambda>e. Some (entry_id e) = selectedEntry a) entries of
           None \<Rightarrow> a\<lparr>selectedEntry := None\<rparr>
         | Some sel \<Rightarrow> if hidden sel \<and> \<not> gm then a\<lparr>selectedEntry := None\<rparr> else a)
      else a)"

definition resolveCurrent :: "entry list \<Rightarrow> app \<Rightarrow> entry option" where
  "resolveCurrent entries a =
     (if truthy (selectedEntry a)
      then find (\<lambda>e. Some (entry_id e) = selectedEntry a) entries
      else None)"

definition bodyMatchOf :: "string \<Rightarrow> entry \<Rightarrow> bool" where
  "bodyMatchOf q e =
     (if q \<noteq> [] then
        (if \<not> includes_str (toLowerCase (title e)) q then includes_str (bodyText e) q else False)
      else False)"

definition categoryLabelOf :: "string \<Rightarrow> category_rec list \<Rightarrow> entry \<Rightarrow> string option" where
  "categoryLabelOf q cats e =
     (if q \<noteq> [] then
        Some (case find (\<lambda>c. cat_id c = category e) cats of
                None \<Rightarrow> category e
              | Some c \<Rightarrow> (case label c of None \<Rightarrow> category e | Some l \<Rightarrow> l))
      else None)"

definition withStatus :: "(string \<times> session) list \<Rightarrow> string option \<Rightarrow> bool \<Rightarrow> entry \<Rightarrow> entry_status" where
  "withStatus editors cl bm e =
     entry.extend e (entry_status.fields (map_option userName (map_of editors (entry_id e))) cl bm)"

definition withCount :: "entry list \<Rightarrow> category_rec \<Rightarrow> category_count" where
  "withCount entries cat =
     category_rec.extend cat
       (category_count.fields (length (filter (\<lambda>e. category e = cat_id cat) entries)))"

text \<open>
  The object literal that ends \<^verbatim>\<open>_prepareContext\<close>, from the values computed before it
  (\<open>a\<close> is the instance after both validations).
\<close>

definition assembleContext ::
  "host \<Rightarrow> client \<Rightarrow> app \<Rightarrow> entry list \<Rightarrow> category_rec list \<Rightarrow> entry list \<Rightarrow> entry_status list
     \<Rightarrow> entry option \<Rightarrow> view_context" where
  "assembleContext h s a entries cats filtered entriesWithStatus current =
     \<lparr>ctx_categories = map (withCount entries) cats,
      ctx_activeCat = activeCat a,
      ctx_entries = entriesWithStatus,
      ctx_current = current,
      ctx_currentEditor =
        (case current of
           None \<Rightarrow> None
         | Some cur \<Rightarrow> map_option userName (map_of (activeEditors s) (entry_id cur))),
      ctx_enrichedContent =
        processEntryLinks
          (case current of
             None \<Rightarrow> None
           | Some cur \<Rightarrow> if content cur \<noteq> [] then Some (enrichHTML h (content cur)) else None)
          entries,
      ctx_gmNotes =
        (if isGM (user s) then (case current of None \<Rightarrow> None | Some cur \<Rightarrow> gmNotes cur)
         else None),
      ctx_formattedComments =
        formatComments h s
          (case current of None \<Rightarrow> [] | Some cur \<Rightarrow> commentsOrEmpty cur)
          (isGM (user s)),
      ctx_hasComments =
        (0 < length
           (formatComments h s
              (case current of None \<Rightarrow> [] | Some cur \<Rightarrow> commentsOrEmpty cur)
              (isGM (user s)))),
      ctx_isGM = isGM (user s),
      ctx_gmOnline = (isGM (user s) \<or> find (\<lambda>u. isGM u \<and> active u) (users s) \<noteq> None),
      ctx_searchQuery = searchQuery a,
      ctx_isSearching = (searchQuery a \<noteq> []),
      ctx_noEntries = (length filtered = 0),
      ctx_pendingDeletions = length (filter pendingDelete entries),
      ctx_updatedAtFormatted =
        (case current of
           None \<Rightarrow> None
         | Some cur \<Rightarrow>
             if updatedAt cur \<noteq> 0 then Some (toLocaleString h (updatedAt cur)) else None)\<rparr>"

text \<open>
  \<^verbatim>\<open>PartyWikiApp._prepareContext\<close>, second revision (lines 1355 to 1454): the instance
  afterwards and the context.
\<close>

definition prepareContext :: "host \<Rightarrow> app \<Rightarrow> client \<Rightarrow> app \<times> view_context" where
  "prepareContext h a s =
     (let entries = getEntries s;
          gm = isGM (user s);
          q = toLowerCase (searchQuery a);
          cats = getCategories s;
          a1 = validateActiveCat cats a;
          filtered = filterEntries a1 entries gm;
          a2 = validateSelected entries gm a1;
          current = resolveCurrent entries a2;
          entriesWithStatus =
            map (\<lambda>e. withStatus (activeEditors s) (categoryLabelOf q cats e) (bodyMatchOf q e) e)
              filtered
      in (a2, assembleContext h s a2 entries cats filtered entriesWithStatus current))"

text \<open>
  \<^verbatim>\<open>PartyWikiApp._prepareContext\<close>, first revision (lines 283 to 401).  The entries are
  filtered before the active category is validated.  The callback that annotates the
  filtered entries reads \<^verbatim>\<open>cats\<close> when the query is not empty, and \<^verbatim>\<open>const cats\<close> is
  initialised only after that statement: with a query and at least one filtered entry the
  read throws a \<^verbatim>\<open>ReferenceError\<close>, after the selection has been validated.  With an empty
  query the callback sets \<^verbatim>\<open>categoryLabel\<close> to \<^verbatim>\<open>null\<close> without reading \<^verbatim>\<open>cats\<close>.
\<close>

definition prepareContext_v1 :: "host \<Rightarrow> app \<Rightarrow> client \<Rightarrow> app \<times> (js_error + view_context)" where
  "prepareContext_v1 h a s =
     (let entries = getEntries s;
          gm = isGM (user s);
          q = toLowerCase (searchQuery a);
          filtered = filterEntries a entries gm;
          a1 = validateSelected entries gm a;
          current = resolveCurrent entries a1
      in if q \<noteq> [] \<and> filtered \<noteq> [] then (a1, Inl ReferenceError)
         else
           (let entriesWithStatus =
                  map (\<lambda>e. withStatus (activeEditors s) None (bodyMatchOf q e) e) filtered;
                cats = getCategories s;
                a2 = validateActiveCat cats a1
            in (a2, Inr (assembleContext h s a2 entries cats filtered entriesWithStatus current))))"

section \<open>Entry mutators of the viewer\<close>

text \<open>
  \<^verbatim>\<open>PartyWikiApp._onClickToggleHidden\<close> (lines 1485 to 1492; inline at lines 466 to 474
  in the first revision).
\<close>

definition onClickToggleHidden :: "app \<Rightarrow> client \<Rightarrow> client" where
  "onClickToggleHidden a s =
     (if \<not> truthy (selectedEntry a) \<or> \<not> isGM (user s) then s
      else
        (case findIndex (\<lambda>en. Some (entry_id en) = selectedEntry a) (getEntries s) of
           None \<Rightarrow> s
         | Some idx \<Rightarrow>
             snd (saveEntries
                    ((getEntries s)
                       [idx := (getEntries s ! idx)\<lparr>hidden := \<not> hidden (getEntries s ! idx)\<rparr>])
                    s)))"

text \<open>
  \<^verbatim>\<open>PartyWikiApp._onClickGmDelete\<close> (lines 1525 to 1535; inline at lines 522 to 533 in the
  first revision).  \<open>ok\<close> is the answer to the confirmation dialog.
\<close>

definition onClickGmDelete :: "bool \<Rightarrow> app \<Rightarrow> client \<Rightarrow> app \<times> client" where
  "onClickGmDelete ok a s =
     (if \<not> truthy (selectedEntry a) then (a, s)
      else if \<not> ok then (a, s)
      else
        (a\<lparr>selectedEntry := None\<rparr>,
         snd (saveEntries (filter (\<lambda>en. Some (entry_id en) \<noteq> selectedEntry a) (getEntries s)) s)))"

text \<open>
  The assignment of \<^verbatim>\<open>_deleteComment\<close> to \<^verbatim>\<open>entries[entryIdx].comments\<close>: the collection
  with the comments of that id filtered out of the entry at \<open>entryIdx\<close>.
\<close>

definition withoutComment :: "nat \<Rightarrow> string \<Rightarrow> entry list \<Rightarrow> entry list" where
  "withoutComment entryIdx commentId entries =
     entries[entryIdx := (entries ! entryIdx)
               \<lparr>comments :=
                  Some (filter (\<lambda>c. comment_id c \<noteq> commentId)
                          (commentsOrEmpty (entries ! entryIdx)))\<rparr>]"

text \<open>\<^verbatim>\<open>PartyWikiApp._deleteComment(commentId)\<close> (lines 1651 to 1660 and 619 to 627).\<close>

definition deleteComment :: "app \<Rightarrow> string \<Rightarrow> client \<Rightarrow> client" where
  "deleteComment a commentId s =
     (if \<not> truthy (selectedEntry a) then s
      else
        (case findIndex (\<lambda>e. Some (entry_id e) = selectedEntry a) (getEntries s) of
           None \<Rightarrow> s
         | Some entryIdx \<Rightarrow>
             snd (saveEntries (withoutComment entryIdx commentId (getEntries s)) s)))"

section \<open>Entry editor\<close>

text \<open>
  Of a \<^verbatim>\<open>WikiEntryEditor\<close> instance: the \<^verbatim>\<open>id\<close> and \<^verbatim>\<open>gmNotes\<close> of \<^verbatim>\<open>this._entry\<close>
  and the flag \<^verbatim>\<open>_broadcastedStart\<close>.  Of the form: the values that \<^verbatim>\<open>_handleSave\<close>
  reads from the DOM (\<open>None\<close>: the element or the form field does not exist).
\<close>

record editor =
  editor_entry_id :: "string option"
  editor_entry_gmNotes :: "string option"
  broadcastedStart :: bool

record form_input =
  form_title :: "string option"
  form_category :: string
  form_content :: string
  gmNotesEl :: "string option"
  hiddenEl :: "bool option"

datatype save_outcome = NoTitle | KeptOpen | Closed

text \<open>The constants \<^verbatim>\<open>gmNotes\<close> and \<^verbatim>\<open>hidden\<close> of \<^verbatim>\<open>_handleSave\<close>; \<open>None\<close> is \<^verbatim>\<open>undefined\<close>.\<close>

definition gmNotesValue :: "client \<Rightarrow> form_input \<Rightarrow> editor \<Rightarrow> string option" where
  "gmNotesValue s f ed =
     (if isGM (user s) then
        Some (case gmNotesEl f of
                Some v \<Rightarrow> v
              | None \<Rightarrow> (case editor_entry_gmNotes ed of Some g \<Rightarrow> g | None \<Rightarrow> []))
      else None)"

definition hiddenValue :: "client \<Rightarrow> form_input \<Rightarrow> bool option" where
  "hiddenValue s f =
     (if isGM (user s) then Some (case hiddenEl f of Some b \<Rightarrow> b | None \<Rightarrow> False) else None)"

text \<open>The object literal assigned to \<^verbatim>\<open>entries[idx]\<close> (lines 1900 to 1910 and 827 to 835).\<close>

definition updatedEntry :: "client \<Rightarrow> form_input \<Rightarrow> editor \<Rightarrow> int \<Rightarrow> string \<Rightarrow> entry \<Rightarrow> entry" where
  "updatedEntry s f ed now t old =
     (let e1 = old\<lparr>title := t,
                   category := form_category f,
                   content := form_content f,
                   updatedAt := now,
                   updatedBy := user_name (user s),
                   pendingDelete := False,
                   comments := Some (commentsOrEmpty old)\<rparr>
      in if isGM (user s)
         then e1\<lparr>gmNotes := gmNotesValue s f ed,
                 hidden := (case hiddenValue s f of Some b \<Rightarrow> b | None \<Rightarrow> False)\<rparr>
         else e1)"

text \<open>The object literal pushed for a new entry (lines 1914 to 1927 and 838 to 849).\<close>

definition newEntry :: "client \<Rightarrow> form_input \<Rightarrow> editor \<Rightarrow> int \<Rightarrow> string \<Rightarrow> string \<Rightarrow> entry" where
  "newEntry s f ed now newId t =
     \<lparr>entry_id = newId,
      title = t,
      category = form_category f,
      content = form_content f,
      hidden = (case hiddenValue s f of Some b \<Rightarrow> b | None \<Rightarrow> False),
      pendingDelete = False,
      createdAt = now,
      updatedAt = now,
      createdBy = user_name (user s),
      updatedBy = user_name (user s),
      gmNotes = gmNotesValue s f ed,
      comments = Some []\<rparr>"

text \<open>
  The collection that \<^verbatim>\<open>_handleSave\<close> passes to \<^verbatim>\<open>saveEntries\<close>.  \<open>now\<close> is
  \<^verbatim>\<open>Date.now()\<close>, \<open>newId\<close> the result of \<^verbatim>\<open>generateId()\<close>, \<open>t\<close> the trimmed title.
\<close>

definition handleSave_entries ::
  "client \<Rightarrow> form_input \<Rightarrow> editor \<Rightarrow> int \<Rightarrow> string \<Rightarrow> string \<Rightarrow> entry list" where
  "handleSave_entries s f ed now newId t =
     (if truthy (editor_entry_id ed) then
        (case findIndex (\<lambda>e. Some (entry_id e) = editor_entry_id ed) (getEntries s) of
           None \<Rightarrow> getEntries s
         | Some idx \<Rightarrow>
             (getEntries s)[idx := updatedEntry s f ed now t (getEntries s ! idx)])
      else getEntries s @ [newEntry s f ed now newId t])"

text \<open>\<^verbatim>\<open>WikiEntryEditor._broadcastEditingStop\<close>, called by \<^verbatim>\<open>close\<close>.\<close>

definition broadcastEditingStop :: "editor \<Rightarrow> client \<Rightarrow> editor \<times> client" where
  "broadcastEditingStop ed s =
     (case editor_entry_id ed of
        None \<Rightarrow> (ed, s)
      | Some i \<Rightarrow>
          if broadcastedStart ed \<and> i \<noteq> [] then
            (ed\<lparr>broadcastedStart := False\<rparr>,
             refreshAllWikiApps
               (socket_emit (EditingStop i (user_id (user s)))
                  (s\<lparr>activeEditors := AList.delete i (activeEditors s)\<rparr>)))
          else (ed, s))"

text \<open>\<^verbatim>\<open>WikiEntryEditor._handleSave\<close> (lines 1875 to 1935 and 800 to 856).\<close>

definition handleSave ::
  "form_input \<Rightarrow> editor \<Rightarrow> int \<Rightarrow> string \<Rightarrow> client \<Rightarrow> save_outcome \<times> editor \<times> client" where
  "handleSave f ed now newId s =
     (case map_option trim (form_title f) of
        None \<Rightarrow> (NoTitle, ed, notify_warn ''Please enter a title for the entry.'' s)
      | Some t \<Rightarrow>
          if t = [] then (NoTitle, ed, notify_warn ''Please enter a title for the entry.'' s)
          else
            (case saveEntries (handleSave_entries s f ed now newId t) s of
               (saved, s') \<Rightarrow>
                 if \<not> saved then (KeptOpen, ed, s')
                 else (case broadcastEditingStop ed s' of (ed', s'') \<Rightarrow> (Closed, ed', s''))))"

section \<open>Category settings\<close>

text \<open>
  One row of the settings window: the category id of the row and the values of its label
  and icon inputs (\<open>None\<close>: the input does not exist).
\<close>

record dom_row =
  row_id :: string
  row_label :: "string option"
  row_icon :: "string option"

text \<open>One turn of the loop of \<^verbatim>\<open>_syncFromDOM\<close>.\<close>

definition syncRow :: "dom_row \<Rightarrow> category_rec list \<Rightarrow> category_rec list" where
  "syncRow r w =
     (case findIndex (\<lambda>c. cat_id c = row_id r) w of
        None \<Rightarrow> w
      | Some i \<Rightarrow>
          w[i := (w ! i)
               \<lparr>label := (if truthy (map_option trim (row_label r))
                          then map_option trim (row_label r) else label (w ! i)),
                icon := (if truthy (map_option trim (row_icon r))
                         then (case map_option trim (row_icon r) of
                                 Some ic \<Rightarrow> ic
                               | None \<Rightarrow> icon (w ! i))
                         else icon (w ! i))\<rparr>])"

definition syncFromDOM :: "dom_row list \<Rightarrow> category_rec list \<Rightarrow> category_rec list" where
  "syncFromDOM rows w = fold syncRow rows w"

text \<open>
  \<^verbatim>\<open>WikiCategorySettings._save\<close> (lines 1031 to 1051 and 2375 to 2395): whether the method
  reached the write, the working set after the synchronisation, and the client afterwards.
\<close>

definition categorySettings_save ::
  "dom_row list \<Rightarrow> category_rec list \<Rightarrow> client \<Rightarrow> bool \<times> category_rec list \<times> client" where
  "categorySettings_save rows working s =
     (let w = syncFromDOM rows working in
      if length w = 0 then
        (False, w, notify_warn ''Adventurer Wiki: You must keep at least one category.'' s)
      else if find (\<lambda>cat. \<not> truthy (map_option trim (label cat))) w \<noteq> None then
        (False, w, notify_warn ''Adventurer Wiki: All categories must have a name.'' s)
      else
        (True, w,
         notify_info ''Adventurer Wiki: Categories saved.''
           (refreshAllWikiApps (socket_emit CategoriesChanged (settings_set_categories w s)))))"

text \<open>
  The click on a category's delete button, after the confirmation dialog has answered
  \<open>ok\<close>: the new working set.
\<close>

definition onClickDeleteCategory ::
  "bool \<Rightarrow> string \<Rightarrow> dom_row list \<Rightarrow> category_rec list \<Rightarrow> category_rec list" where
  "onClickDeleteCategory ok catId rows working =
     (if \<not> ok then working else filter (\<lambda>c. cat_id c \<noteq> catId) (syncFromDOM rows working))"

section \<open>Scenarios\<close>

text \<open>
  Concrete users, entries and clients, on which the functions above are evaluated below:
  a GM and two players; an entry with GM notes and a comment of the first player, whose
  text refers to a second, hidden entry; an entry stored without a comment list.
\<close>

definition gm_user :: user_rec where
  "gm_user = \<lparr>user_id = ''gm'', user_name = ''Gamemaster'', isGM = True, active = True\<rparr>"

definition alice :: user_rec where
  "alice = \<lparr>user_id = ''u1'', user_name = ''Alice'', isGM = False, active = True\<rparr>"

definition bob :: user_rec where
  "bob = \<lparr>user_id = ''u2'', user_name = ''Bob'', isGM = False, active = True\<rparr>"

definition alice_comment :: comment where
  "alice_comment =
     \<lparr>comment_id = ''c1'', authorName = ''Alice'', comment_userId = ''u1'',
      comment_text = ''Nice place'', comment_createdAt = 1700000000000\<rparr>"

definition entry_tavern :: entry where
  "entry_tavern =
     \<lparr>entry_id = ''e1'', title = ''Tavern'', category = ''lore'',
      content = ''See [[Secret Vault]]'', hidden = False, pendingDelete = False,
      createdAt = 1700000000000, updatedAt = 1700000000000,
      createdBy = ''Alice'', updatedBy = ''Gamemaster'',
      gmNotes = Some ''The innkeeper is a spy'', comments = Some [alice_comment]\<rparr>"

definition entry_vault :: entry where
  "entry_vault =
     \<lparr>entry_id = ''e2'', title = ''Secret Vault'', category = ''lore'',
      content = ''Gold'', hidden = True, pendingDelete = False,
      createdAt = 1700000000000, updatedAt = 1700000000000,
      createdBy = ''Gamemaster'', updatedBy = ''Gamemaster'',
      gmNotes = Some ''Trapped'', comments = Some []\<rparr>"

definition entry_road :: entry where
  "entry_road =
     \<lparr>entry_id = ''e3'', title = ''Old Road'', category = ''locations'',
      content = ''Dusty'', hidden = False, pendingDelete = True,
      createdAt = 1600000000000, updatedAt = 1600000000000,
      createdBy = ''Bob'', updatedBy = ''Bob'',
      gmNotes = None, comments = None\<rparr>"

text \<open>
  A comment of the second player; a visible entry with both comments; a hidden entry
  that is flagged for deletion and carries GM notes and both comments.
\<close>

definition bob_comment :: comment where
  "bob_comment =
     \<lparr>comment_id = ''c2'', authorName = ''Bob'', comment_userId = ''u2'',
      comment_text = ''Too loud'', comment_createdAt = 1700000000100\<rparr>"

definition entry_market :: entry where
  "entry_market =
     \<lparr>entry_id = ''e4'', title = ''Market'', category = ''locations'',
      content = ''Stalls'', hidden = False, pendingDelete = False,
      createdAt = 1700000000000, updatedAt = 1700000000200,
      createdBy = ''Alice'', updatedBy = ''Alice'',
      gmNotes = None, comments = Some [alice_comment, bob_comment]\<rparr>"

definition entry_crypt :: entry where
  "entry_crypt =
     \<lparr>entry_id = ''e5'', title = ''Crypt'', category = ''lore'',
      content = ''Cold'', hidden = True, pendingDelete = True,
      createdAt = 1650000000000, updatedAt = 1700000000300,
      createdBy = ''Bob'', updatedBy = ''Gamemaster'',
      gmNotes = Some ''The lich sleeps here'', comments = Some [alice_comment, bob_comment]\<rparr>"

text \<open>A client of user \<open>u\<close>, with the user list \<open>us\<close> and the stored entries \<open>es\<close>.\<close>

definition world :: "user_rec \<Rightarrow> user_rec list \<Rightarrow> entry list \<Rightarrow> client" where
  "world u us es =
     \<lparr>user = u, users = us, wikiEntries = es, wikiCategories = None, activeEditors = [],
      emitted = [], warnings = [], infos = [], refreshes = 0\<rparr>"

text \<open>Three locks, two of them held by the first player.\<close>

definition three_locks :: "(string \<times> session) list" where
  "three_locks =
     [(''e1'', \<lparr>userName = ''Alice'', userId = ''u1''\<rparr>),
      (''e2'', \<lparr>userName = ''Bob'', userId = ''u2''\<rparr>),
      (''e3'', \<lparr>userName = ''Alice'', userId = ''u1''\<rparr>)]"

text \<open>
  The viewer with the category \<^verbatim>\<open>lore\<close> open and the first entry selected; the editor
  opened on the entry stored without a comment list, and its form; a working set of
  categories and a row of the settings window.
\<close>

definition viewer :: app where
  "viewer = \<lparr>activeCat = Some ''lore'', selectedEntry = Some ''e1'', searchQuery = []\<rparr>"

definition market_viewer :: app where
  "market_viewer =
     \<lparr>activeCat = Some ''locations'', selectedEntry = Some ''e4'', searchQuery = []\<rparr>"

definition crypt_editor :: editor where
  "crypt_editor =
     \<lparr>editor_entry_id = Some ''e5'', editor_entry_gmNotes = None, broadcastedStart = True\<rparr>"

definition crypt_form :: form_input where
  "crypt_form =
     \<lparr>form_title = Some '' The Crypt'', form_category = ''locations'',
      form_content = ''Cold and damp'', gmNotesEl = None, hiddenEl = None\<rparr>"

definition road_editor :: editor where
  "road_editor =
     \<lparr>editor_entry_id = Some ''e3'', editor_entry_gmNotes = None, broadcastedStart = True\<rparr>"

definition road_form :: form_input where
  "road_form =
     \<lparr>form_title = Some ''Old Road '', form_category = ''locations'',
      form_content = ''Dusty and long'', gmNotesEl = None, hiddenEl = None\<rparr>"

definition lore_cat :: category_rec where
  "lore_cat = \<lparr>cat_id = ''lore'', label = Some ''Lore'', icon = ''fa-book-open''\<rparr>"

definition blank_cat :: category_rec where
  "blank_cat = \<lparr>cat_id = ''x'', label = Some ''  '', icon = ''fa-tag''\<rparr>"

definition npcs_cat :: category_rec where
  "npcs_cat = \<lparr>cat_id = ''npcs'', label = Some ''NPCs'', icon = ''fa-person''\<rparr>"

definition unlabelled_cat :: category_rec where
  "unlabelled_cat = \<lparr>cat_id = ''lore'', label = Some [], icon = ''fa-book-open''\<rparr>"

definition emptied_row :: dom_row where
  "emptied_row = \<lparr>row_id = ''npcs'', row_label = Some [], row_icon = Some ''fa-person''\<rparr>"

definition renaming_row :: dom_row where
  "renaming_row = \<lparr>row_id = ''npcs'', row_label = Some '' People'', row_icon = None\<rparr>"

definition lore_row :: dom_row where
  "lore_row = \<lparr>row_id = ''lore'', row_label = Some '' Lore '', row_icon = Some []\<rparr>"

text \<open>A host whose enrichment leaves plain text as it is.\<close>

definition plain_host :: host where
  "plain_host = \<lparr>enrichHTML = (\<lambda>h. h), toLocaleString = (\<lambda>t. ''Nov 14, 2023'')\<rparr>"

section \<open>Auxiliary facts\<close>

lemma find_no_gm:
  "\<not> (\<exists>u \<in> set us. isGM u \<and> active u) \<Longrightarrow> find (\<lambda>u. isGM u \<and> active u) us = None"
  by (simp add: find_None_iff)

lemma find_gm:
  "\<exists>u \<in> set us. isGM u \<and> active u \<Longrightarrow> \<exists>g. find (\<lambda>u. isGM u \<and> active u) us = Some g"
  by (cases "find (\<lambda>u. isGM u \<and> active u) us") (auto simp: find_None_iff)

lemma saveEntries_relay:
  "\<not> isGM (user s) \<Longrightarrow> \<exists>u \<in> set (users s). isGM u \<and> active u \<Longrightarrow>
   saveEntries E s = (True, socket_emit (RequestSave E) s)"
  using find_gm [of "users s"] by (auto simp: saveEntries_def)

lemma saveEntries_no_gm:
  "\<not> isGM (user s) \<Longrightarrow> \<not> (\<exists>u \<in> set (users s). isGM u \<and> active u) \<Longrightarrow>
   saveEntries E s = (False, notify_warn NO_GM_WARNING s)"
  by (simp add: saveEntries_def find_no_gm)

text \<open>\<^const>\<open>findIndex\<close> returns the first index at which the predicate holds.\<close>

lemma findIndex_Some:
  "findIndex P xs = Some i \<Longrightarrow> i < length xs \<and> P (xs ! i) \<and> (\<forall>j<i. \<not> P (xs ! j))"
proof (induction xs arbitrary: i)
  case Nil
  then show ?case by simp
next
  case (Cons x xs)
  show ?case
  proof (cases "P x")
    case True
    with Cons.prems show ?thesis by simp
  next
    case False
    with Cons.prems obtain i' where i': "findIndex P xs = Some i'" "i = Suc i'"
      by auto
    from Cons.IH [OF i'(1)] False i'(2) show ?thesis
      by (auto simp: nth_Cons split: nat.splits)
  qed
qed

section \<open>Write gateway: properties\<close>

text \<open>
  C1.  When the caller is a player and no user of the user list is an active GM,
  \<^verbatim>\<open>saveEntries(E)\<close> returns false, shows exactly one warning, emits nothing on the
  socket, and the entries read afterwards are the entries read before.
\<close>

theorem saveEntries_blocked:
  assumes "\<not> isGM (user s)"
    and "\<not> (\<exists>u \<in> set (users s). isGM u \<and> active u)"
  shows "fst (saveEntries E s) = False
       \<and> getEntries (snd (saveEntries E s)) = getEntries s
       \<and> wikiEntries (snd (saveEntries E s)) = wikiEntries s
       \<and> warnings (snd (saveEntries E s)) = warnings s @ [NO_GM_WARNING]
       \<and> emitted (snd (saveEntries E s)) = emitted s"
  using assms
  by (simp add: saveEntries_def find_no_gm notify_warn_def getEntries_def)

theorem saveEntries_blocked_witness:
  "\<not> isGM (user (world alice [alice, bob] [entry_road]))
   \<and> fst (saveEntries [entry_tavern] (world alice [alice, bob] [entry_road])) = False
   \<and> getEntries (snd (saveEntries [entry_tavern] (world alice [alice, bob] [entry_road])))
       = [entry_road]
   \<and> warnings (snd (saveEntries [entry_tavern] (world alice [alice, bob] [entry_road])))
       = [NO_GM_WARNING]
   \<and> emitted (snd (saveEntries [entry_tavern] (world alice [alice, bob] [entry_road]))) = []"
  using saveEntries_blocked [of "world alice [alice, bob] [entry_road]" "[entry_tavern]"]
  by (simp add: world_def alice_def bob_def getEntries_def)

text \<open>
  C2.  When the caller is a GM, \<^verbatim>\<open>saveEntries(E)\<close> returns true, the entries read
  afterwards are exactly \<open>E\<close>, and the call emits one message on the socket, a
  \<^verbatim>\<open>refresh\<close>.
\<close>

theorem saveEntries_gm:
  assumes "isGM (user s)"
  shows "fst (saveEntries E s) = True
       \<and> getEntries (snd (saveEntries E s)) = E
       \<and> emitted (snd (saveEntries E s)) = emitted s @ [Refresh]
       \<and> length (filter (\<lambda>p. p = Refresh) (emitted (snd (saveEntries E s))))
           = Suc (length (filter (\<lambda>p. p = Refresh) (emitted s)))"
  using assms
  by (simp add: saveEntries_def getEntries_def refreshAllWikiApps_def socket_emit_def
      settings_set_entries_def)

theorem saveEntries_gm_witness:
  "isGM (user (world gm_user [gm_user, alice] [entry_road]))
   \<and> fst (saveEntries [entry_tavern] (world gm_user [gm_user, alice] [entry_road])) = True
   \<and> getEntries (snd (saveEntries [entry_tavern] (world gm_user [gm_user, alice] [entry_road])))
       = [entry_tavern]
   \<and> emitted (snd (saveEntries [entry_tavern] (world gm_user [gm_user, alice] [entry_road])))
       = [Refresh]"
  using saveEntries_gm [of "world gm_user [gm_user, alice] [entry_road]" "[entry_tavern]"]
  by (simp add: world_def gm_user_def)

section \<open>Presence tracker: properties\<close>

text \<open>
  C7.  On any client, after \<^verbatim>\<open>editingStart\<close> for entry \<open>X\<close> by user \<open>u1\<close>, an
  \<^verbatim>\<open>editingStop\<close> for \<open>X\<close> by \<open>u1\<close> leaves \<open>X\<close> without a session, and an
  \<^verbatim>\<open>editingStop\<close> for \<open>X\<close> by another user \<open>u2\<close> leaves the session of \<open>u1\<close> in place.
\<close>

theorem lock_lifecycle:
  "map_of (activeEditors (onSocket (EditingStop X u1) (onSocket (EditingStart X n1 u1) s))) X
     = None
   \<and> (u2 \<noteq> u1 \<longrightarrow>
        map_of (activeEditors (onSocket (EditingStop X u2) (onSocket (EditingStart X n1 u1) s))) X
          = Some \<lparr>userName = n1, userId = u1\<rparr>)"
  by (simp add: refreshAllWikiApps_def update_conv delete_conv)

theorem lock_lifecycle_witness:
  "map_of (activeEditors (onSocket (EditingStop ''e1'' ''u1'')
             (onSocket (EditingStart ''e1'' ''Alice'' ''u1'') (world bob [bob] [])))) ''e1''
     = None
   \<and> map_of (activeEditors (onSocket (EditingStop ''e1'' ''u2'')
               (onSocket (EditingStart ''e1'' ''Alice'' ''u1'') (world bob [bob] [])))) ''e1''
       = Some \<lparr>userName = ''Alice'', userId = ''u1''\<rparr>"
  using lock_lifecycle [of "''e1''" "''u1''" "''Alice''" "world bob [bob] []" "''u2''"]
  by simp

text \<open>What the loop of the disconnect hook leaves in the map, key by key.\<close>

lemma map_of_release_fold:
  "map_of (fold (\<lambda>(k, sess) acc. if userId sess = uid then AList.delete k acc else acc) xs m) k
     = (if \<exists>sess. (k, sess) \<in> set xs \<and> userId sess = uid then None else map_of m k)"
proof (induction xs arbitrary: m)
  case Nil
  then show ?case by simp
next
  case (Cons x xs)
  obtain k' sess' where x: "x = (k', sess')" by (cases x)
  show ?case
    using Cons.IH x by (auto simp: delete_conv)
qed

lemma map_of_release_locks:
  assumes "distinct (map fst m)"
  shows "map_of (release_locks uid m) k
     = (case map_of m k of
          None \<Rightarrow> None
        | Some sess \<Rightarrow> if userId sess = uid then None else Some sess)"
proof (cases "map_of m k")
  case None
  then have "\<And>sess. (k, sess) \<notin> set m"
    by (metis map_of_eq_None_iff fst_conv image_eqI)
  with None show ?thesis
    by (simp add: release_locks_def map_of_release_fold)
next
  case (Some sess)
  then have "\<And>sess'. (k, sess') \<in> set m \<longleftrightarrow> sess' = sess"
    using assms by (metis map_of_eq_Some_iff option.inject)
  with Some show ?thesis
    by (simp add: release_locks_def map_of_release_fold)
qed

lemma distinct_release_fold:
  "distinct (map fst m) \<Longrightarrow>
   distinct (map fst
     (fold (\<lambda>(k, sess) acc. if userId sess = uid then AList.delete k acc else acc) xs m))"
  by (induction xs arbitrary: m) (auto simp: distinct_delete split: prod.splits)

text \<open>
  C8.  For a map that holds each key once, as a \<^verbatim>\<open>Map\<close> does, after the disconnect of
  user \<open>u\<close> a key has no session when its session was of \<open>u\<close>, and otherwise it has the
  value it had: all locks of \<open>u\<close> are released and no other lock changes.  The map still
  holds each key once.
\<close>

theorem disconnect_cleanup:
  assumes "distinct (map fst (activeEditors s))"
  shows "map_of (activeEditors (userConnected u False s)) k
           = (case map_of (activeEditors s) k of
                None \<Rightarrow> None
              | Some sess \<Rightarrow> if userId sess = user_id u then None else Some sess)
       \<and> distinct (map fst (activeEditors (userConnected u False s)))"
proof -
  have m: "activeEditors (userConnected u False s) = release_locks (user_id u) (activeEditors s)"
    by (simp add: userConnected_def refreshAllWikiApps_def)
  have d: "distinct (map fst (release_locks (user_id u) (activeEditors s)))"
    using assms by (simp add: release_locks_def distinct_release_fold)
  show ?thesis
    using assms m d by (simp add: map_of_release_locks)
qed

theorem disconnect_cleanup_witness:
  "distinct (map fst (activeEditors (world gm_user [gm_user] [] \<lparr>activeEditors := three_locks\<rparr>)))
   \<and> map_of (activeEditors (userConnected alice False
        (world gm_user [gm_user] [] \<lparr>activeEditors := three_locks\<rparr>))) ''e1'' = None
   \<and> map_of (activeEditors (userConnected alice False
        (world gm_user [gm_user] [] \<lparr>activeEditors := three_locks\<rparr>))) ''e2''
       = Some \<lparr>userName = ''Bob'', userId = ''u2''\<rparr>
   \<and> map_of (activeEditors (userConnected alice False
        (world gm_user [gm_user] [] \<lparr>activeEditors := three_locks\<rparr>))) ''e3'' = None"
  using
    disconnect_cleanup [of "world gm_user [gm_user] [] \<lparr>activeEditors := three_locks\<rparr>" alice "''e1''"]
    disconnect_cleanup [of "world gm_user [gm_user] [] \<lparr>activeEditors := three_locks\<rparr>" alice "''e2''"]
    disconnect_cleanup [of "world gm_user [gm_user] [] \<lparr>activeEditors := three_locks\<rparr>" alice "''e3''"]
  by (simp add: world_def three_locks_def alice_def)

section \<open>Category settings: properties\<close>

lemma length_syncRow: "length (syncRow r w) = length w"
  by (simp add: syncRow_def split: option.splits)

lemma length_syncFromDOM: "length (syncFromDOM rows w) = length w"
  unfolding syncFromDOM_def
  by (induction rows arbitrary: w) (simp_all add: length_syncRow)

lemma cat_id_syncRow: "map cat_id (syncRow r w) = map cat_id w"
proof (cases "findIndex (\<lambda>c. cat_id c = row_id r) w")
  case None
  then show ?thesis by (simp add: syncRow_def)
next
  case (Some i)
  then have "i < length w" by (simp add: findIndex_Some)
  with Some show ?thesis
    by (simp add: syncRow_def map_update list_update_same_conv)
qed

lemma cat_id_syncFromDOM: "map cat_id (syncFromDOM rows w) = map cat_id w"
  unfolding syncFromDOM_def
  by (induction rows arbitrary: w) (simp_all add: cat_id_syncRow)

text \<open>The category list that is read is never empty: an empty store reads as the defaults.\<close>

lemma getCategories_nonempty: "getCategories s \<noteq> []"
  by (simp add: getCategories_def DEFAULT_CATEGORIES_def split: option.splits)

text \<open>Deleting the only category of the working set leaves the working set empty.\<close>

lemma delete_last_category: "onClickDeleteCategory True (cat_id c) rows [c] = []"
proof -
  have "map cat_id (syncFromDOM rows [c]) = [cat_id c]"
    by (simp add: cat_id_syncFromDOM)
  then have "\<forall>d \<in> set (syncFromDOM rows [c]). cat_id d = cat_id c"
    by (metis (no_types, lifting) imageI list.set_map empty_iff empty_set set_ConsD)
  then show ?thesis
    by (simp add: onClickDeleteCategory_def)
qed

text \<open>
  C9, as the claim states it, fails: the label that \<^verbatim>\<open>_save\<close> validates is not the
  label of the working set at the call, but the label after \<^verbatim>\<open>_syncFromDOM\<close>.  A
  working set whose only category has the empty label is written when the label input
  of its row holds \<^verbatim>\<open>Lore\<close>; and a save with the label input of a category emptied is
  written too, with the label the category had (\<^verbatim>\<open>if (label) cat.label = label\<close>).
\<close>

theorem category_save_counterexample:
  "label unlabelled_cat = Some []
   \<and> fst (categorySettings_save [lore_row] [unlabelled_cat] (world gm_user [gm_user] [])) = True
   \<and> wikiCategories (snd (snd (categorySettings_save [lore_row] [unlabelled_cat]
        (world gm_user [gm_user] [])))) = Some [lore_cat]
   \<and> row_label emptied_row = Some []
   \<and> fst (categorySettings_save [emptied_row] [lore_cat, npcs_cat]
        (world gm_user [gm_user] [])) = True
   \<and> wikiCategories (snd (snd (categorySettings_save [emptied_row] [lore_cat, npcs_cat]
        (world gm_user [gm_user] [])))) = Some [lore_cat, npcs_cat]"
  by code_simp

text \<open>
  C9, amended.  \<^verbatim>\<open>_save\<close> first copies every non-blank label input into the working
  set.  It is rejected before any write when the working set is empty, when it is what
  the deletion of the last remaining category left, or when after that copy a category
  has no label or a label of white space only: the stored categories, the categories
  read and the socket log are as before, one warning is shown, and the categories read
  are not empty.  In every other case the working set after the copy is written: what
  is stored then is not empty and every label in it is non-blank, and one
  \<^verbatim>\<open>categoriesChanged\<close> is emitted.
\<close>

theorem category_save_rejected:
  "((working = []
      \<or> working = onClickDeleteCategory True (cat_id c) rows0 [c]
      \<or> (\<exists>d \<in> set (syncFromDOM rows working). \<not> truthy (map_option trim (label d))))
     \<longrightarrow>
       fst (categorySettings_save rows working s) = False
       \<and> wikiCategories (snd (snd (categorySettings_save rows working s))) = wikiCategories s
       \<and> getCategories (snd (snd (categorySettings_save rows working s))) = getCategories s
       \<and> getCategories (snd (snd (categorySettings_save rows working s))) \<noteq> []
       \<and> emitted (snd (snd (categorySettings_save rows working s))) = emitted s
       \<and> length (warnings (snd (snd (categorySettings_save rows working s))))
           = Suc (length (warnings s)))
   \<and> ((working \<noteq> []
        \<and> (\<forall>d \<in> set (syncFromDOM rows working). truthy (map_option trim (label d))))
     \<longrightarrow>
       fst (categorySettings_save rows working s) = True
       \<and> wikiCategories (snd (snd (categorySettings_save rows working s)))
           = Some (syncFromDOM rows working)
       \<and> getCategories (snd (snd (categorySettings_save rows working s)))
           = syncFromDOM rows working
       \<and> syncFromDOM rows working \<noteq> []
       \<and> map cat_id (syncFromDOM rows working) = map cat_id working
       \<and> emitted (snd (snd (categorySettings_save rows working s)))
           = emitted s @ [CategoriesChanged]
       \<and> warnings (snd (snd (categorySettings_save rows working s))) = warnings s)"
proof -
  let ?w = "syncFromDOM rows working"
  have rejected: "fst (categorySettings_save rows working s) = False
       \<and> wikiCategories (snd (snd (categorySettings_save rows working s))) = wikiCategories s
       \<and> getCategories (snd (snd (categorySettings_save rows working s))) = getCategories s
       \<and> getCategories (snd (snd (categorySettings_save rows working s))) \<noteq> []
       \<and> emitted (snd (snd (categorySettings_save rows working s))) = emitted s
       \<and> length (warnings (snd (snd (categorySettings_save rows working s))))
           = Suc (length (warnings s))"
    if bad: "working = []
      \<or> working = onClickDeleteCategory True (cat_id c) rows0 [c]
      \<or> (\<exists>d \<in> set ?w. \<not> truthy (map_option trim (label d)))"
  proof -
    from bad have "?w = [] \<or> find (\<lambda>cat. \<not> truthy (map_option trim (label cat))) ?w \<noteq> None"
      using length_syncFromDOM [of rows working] delete_last_category [of c rows0]
      by (auto simp: find_None_iff)
    then have "\<exists>msg. categorySettings_save rows working s = (False, ?w, notify_warn msg s)"
      by (cases "?w = []") (auto simp add: categorySettings_save_def Let_def)
    then obtain msg where r: "categorySettings_save rows working s = (False, ?w, notify_warn msg s)"
      by blast
    have g: "getCategories (notify_warn msg s) = getCategories s"
      by (simp add: getCategories_def notify_warn_def)
    show ?thesis
      using r g getCategories_nonempty [of s] by (simp add: notify_warn_def)
  qed
  have written: "fst (categorySettings_save rows working s) = True
       \<and> wikiCategories (snd (snd (categorySettings_save rows working s))) = Some ?w
       \<and> getCategories (snd (snd (categorySettings_save rows working s))) = ?w
       \<and> ?w \<noteq> []
       \<and> map cat_id ?w = map cat_id working
       \<and> emitted (snd (snd (categorySettings_save rows working s)))
           = emitted s @ [CategoriesChanged]
       \<and> warnings (snd (snd (categorySettings_save rows working s))) = warnings s"
    if good: "working \<noteq> [] \<and> (\<forall>d \<in> set ?w. truthy (map_option trim (label d)))"
  proof -
    from good have ne: "?w \<noteq> []"
      using length_syncFromDOM [of rows working] by auto
    from good have ok: "find (\<lambda>cat. \<not> truthy (map_option trim (label cat))) ?w = None"
      by (simp add: find_None_iff)
    have r: "categorySettings_save rows working s
               = (True, ?w,
                  notify_info ''Adventurer Wiki: Categories saved.''
                    (refreshAllWikiApps
                       (socket_emit CategoriesChanged (settings_set_categories ?w s))))"
      using ne ok by (simp add: categorySettings_save_def Let_def)
    show ?thesis
      using ne
      by (simp add: r notify_info_def refreshAllWikiApps_def socket_emit_def
          settings_set_categories_def getCategories_def cat_id_syncFromDOM)
  qed
  show ?thesis
    using rejected written by blast
qed

theorem category_save_rejected_witness:
  "fst (categorySettings_save [lore_row] (onClickDeleteCategory True ''lore'' [lore_row] [lore_cat])
          (world gm_user [gm_user] [])) = False
   \<and> wikiCategories (snd (snd (categorySettings_save [lore_row]
          (onClickDeleteCategory True ''lore'' [lore_row] [lore_cat]) (world gm_user [gm_user] []))))
       = None
   \<and> fst (categorySettings_save [lore_row] [lore_cat, blank_cat, npcs_cat]
          (world gm_user [gm_user] [])) = False
   \<and> getCategories (snd (snd (categorySettings_save [lore_row] [lore_cat, blank_cat, npcs_cat]
          (world gm_user [gm_user] [])))) = DEFAULT_CATEGORIES
   \<and> emitted (snd (snd (categorySettings_save [lore_row] [lore_cat, blank_cat, npcs_cat]
          (world gm_user [gm_user] [])))) = []
   \<and> fst (categorySettings_save [] [] (world gm_user [gm_user] [])) = False
   \<and> fst (categorySettings_save [renaming_row] [lore_cat, npcs_cat]
          (world gm_user [gm_user] [])) = True
   \<and> wikiCategories (snd (snd (categorySettings_save [renaming_row] [lore_cat, npcs_cat]
          (world gm_user [gm_user] []))))
       = Some [lore_cat, npcs_cat\<lparr>label := Some ''People''\<rparr>]
   \<and> emitted (snd (snd (categorySettings_save [renaming_row] [lore_cat, npcs_cat]
          (world gm_user [gm_user] [])))) = [CategoriesChanged]"
proof -
  have b: "\<exists>d \<in> set (syncFromDOM [lore_row] [lore_cat, blank_cat, npcs_cat]).
             \<not> truthy (map_option trim (label d))"
    by code_simp
  have d: "cat_id lore_cat = ''lore''"
    by (simp add: lore_cat_def)
  have y: "syncFromDOM [renaming_row] [lore_cat, npcs_cat]
             = [lore_cat, npcs_cat\<lparr>label := Some ''People''\<rparr>]"
    by code_simp
  have g: "[lore_cat, npcs_cat] \<noteq> []
           \<and> (\<forall>d \<in> set (syncFromDOM [renaming_row] [lore_cat, npcs_cat]).
                 truthy (map_option trim (label d)))"
    unfolding y by code_simp
  show ?thesis
    using category_save_rejected [of "[]" lore_cat "[]" "[]" "world gm_user [gm_user] []"]
      category_save_rejected [of "onClickDeleteCategory True ''lore'' [lore_row] [lore_cat]"
        lore_cat "[lore_row]" "[lore_row]" "world gm_user [gm_user] []"]
      category_save_rejected [of "[lore_cat, blank_cat, npcs_cat]" lore_cat "[]" "[lore_row]"
        "world gm_user [gm_user] []"]
      category_save_rejected [of "[lore_cat, npcs_cat]" lore_cat "[]" "[renaming_row]"
        "world gm_user [gm_user] []"]
      b d g y
    by (simp add: world_def getCategories_def)
qed

section \<open>Entry editor: properties\<close>

text \<open>
  C10, as the claim states it, fails on an entry stored without a comment list.  The
  first player saves the entry \<^verbatim>\<open>e3\<close>, which has no field \<^verbatim>\<open>comments\<close>, with a GM
  connected: the entry relayed to the GM has the empty comment list, which is not the
  value of the field before the save.  (The second message is the release of the soft
  lock when the editor closes.)
\<close>

theorem player_edit_counterexample:
  "\<not> isGM (user (world alice [alice, gm_user] [entry_road]))
   \<and> emitted (snd (snd (handleSave road_form road_editor 1700000000500 ''entry_new''
                (world alice [alice, gm_user] [entry_road]))))
       = [RequestSave [entry_road\<lparr>title := ''Old Road'', content := ''Dusty and long'',
                         updatedAt := 1700000000500, updatedBy := ''Alice'',
                         pendingDelete := False, comments := Some []\<rparr>],
          EditingStop ''e3'' ''u1'']
   \<and> comments entry_road = None
   \<and> comments (handleSave_entries (world alice [alice, gm_user] [entry_road]) road_form
                  road_editor 1700000000500 ''entry_new'' ''Old Road'' ! 0)
       \<noteq> comments (getEntries (world alice [alice, gm_user] [entry_road]) ! 0)"
  by code_simp

text \<open>
  C10, amended.  A player saves, with a title that is not blank, an entry that the store
  holds at index \<open>idx\<close>.  In the collection handed to \<^verbatim>\<open>saveEntries\<close> every other entry
  is as stored; the entry at \<open>idx\<close> keeps \<^verbatim>\<open>hidden\<close>, \<^verbatim>\<open>gmNotes\<close>, \<^verbatim>\<open>id\<close>, \<^verbatim>\<open>createdAt\<close>
  and \<^verbatim>\<open>createdBy\<close>; its \<^verbatim>\<open>comments\<close> are the stored comments, or the empty list when the
  stored entry has no such field; \<^verbatim>\<open>title\<close>, \<^verbatim>\<open>category\<close>, \<^verbatim>\<open>content\<close>, \<^verbatim>\<open>updatedAt\<close> and
  \<^verbatim>\<open>updatedBy\<close> are written from the form, the clock and the user, and \<^verbatim>\<open>pendingDelete\<close>
  is false.  With a GM connected this collection is the one relayed, and the window
  closes; with none the save is blocked and the window stays open.  The player's client
  never writes the store itself.
\<close>

theorem player_edit_frame:
  assumes player: "\<not> isGM (user s)"
    and existing: "truthy (editor_entry_id ed)"
    and found: "findIndex (\<lambda>e. Some (entry_id e) = editor_entry_id ed) (getEntries s) = Some idx"
    and titled: "form_title f = Some raw" "trim raw \<noteq> []"
  shows "length (handleSave_entries s f ed now newId (trim raw)) = length (getEntries s)
       \<and> (\<forall>j < length (getEntries s). j \<noteq> idx \<longrightarrow>
             handleSave_entries s f ed now newId (trim raw) ! j = getEntries s ! j)
       \<and> hidden (handleSave_entries s f ed now newId (trim raw) ! idx) = hidden (getEntries s ! idx)
       \<and> gmNotes (handleSave_entries s f ed now newId (trim raw) ! idx) = gmNotes (getEntries s ! idx)
       \<and> comments (handleSave_entries s f ed now newId (trim raw) ! idx)
           = Some (commentsOrEmpty (getEntries s ! idx))
       \<and> entry_id (handleSave_entries s f ed now newId (trim raw) ! idx) = entry_id (getEntries s ! idx)
       \<and> createdAt (handleSave_entries s f ed now newId (trim raw) ! idx) = createdAt (getEntries s ! idx)
       \<and> createdBy (handleSave_entries s f ed now newId (trim raw) ! idx) = createdBy (getEntries s ! idx)
       \<and> title (handleSave_entries s f ed now newId (trim raw) ! idx) = trim raw
       \<and> category (handleSave_entries s f ed now newId (trim raw) ! idx) = form_category f
       \<and> content (handleSave_entries s f ed now newId (trim raw) ! idx) = form_content f
       \<and> updatedAt (handleSave_entries s f ed now newId (trim raw) ! idx) = now
       \<and> updatedBy (handleSave_entries s f ed now newId (trim raw) ! idx) = user_name (user s)
       \<and> pendingDelete (handleSave_entries s f ed now newId (trim raw) ! idx) = False
       \<and> ((\<exists>u \<in> set (users s). isGM u \<and> active u) \<longrightarrow>
            fst (handleSave f ed now newId s) = Closed
            \<and> wikiEntries (snd (snd (handleSave f ed now newId s))) = wikiEntries s
            \<and> take (Suc (length (emitted s))) (emitted (snd (snd (handleSave f ed now newId s))))
                = emitted s @ [RequestSave (handleSave_entries s f ed now newId (trim raw))])
       \<and> (\<not> (\<exists>u \<in> set (users s). isGM u \<and> active u) \<longrightarrow>
            fst (handleSave f ed now newId s) = KeptOpen
            \<and> wikiEntries (snd (snd (handleSave f ed now newId s))) = wikiEntries s
            \<and> emitted (snd (snd (handleSave f ed now newId s))) = emitted s)"
proof -
  let ?es = "handleSave_entries s f ed now newId (trim raw)"
  from found have idx: "idx < length (getEntries s)"
    by (simp add: findIndex_Some)
  have es: "?es = (getEntries s)[idx := updatedEntry s f ed now (trim raw) (getEntries s ! idx)]"
    using existing found by (simp add: handleSave_entries_def)
  have fields: "length ?es = length (getEntries s)"
    "\<forall>j < length (getEntries s). j \<noteq> idx \<longrightarrow> ?es ! j = getEntries s ! j"
    "?es ! idx = updatedEntry s f ed now (trim raw) (getEntries s ! idx)"
    using idx by (simp_all add: es)
  have relay: "(\<exists>u \<in> set (users s). isGM u \<and> active u) \<longrightarrow>
      fst (handleSave f ed now newId s) = Closed
      \<and> wikiEntries (snd (snd (handleSave f ed now newId s))) = wikiEntries s
      \<and> take (Suc (length (emitted s))) (emitted (snd (snd (handleSave f ed now newId s))))
          = emitted s @ [RequestSave ?es]"
    using player titled
    by (auto simp: handleSave_def saveEntries_relay broadcastEditingStop_def socket_emit_def
        refreshAllWikiApps_def split: option.splits)
  have block: "\<not> (\<exists>u \<in> set (users s). isGM u \<and> active u) \<longrightarrow>
      fst (handleSave f ed now newId s) = KeptOpen
      \<and> wikiEntries (snd (snd (handleSave f ed now newId s))) = wikiEntries s
      \<and> emitted (snd (snd (handleSave f ed now newId s))) = emitted s"
    using player titled
    by (auto simp: handleSave_def saveEntries_no_gm notify_warn_def)
  show ?thesis
    using fields relay block player
    by (simp add: updatedEntry_def Let_def)
qed

text \<open>
  The first player has the editor open on the entry \<^verbatim>\<open>e5\<close>, which has since been hidden,
  flagged for deletion and given GM notes, and carries two comments.  The saved entry
  keeps \<^verbatim>\<open>hidden\<close>, the notes and both comments; the flag is cleared, the form's values
  are written, and the other entry of the collection is untouched.
\<close>

theorem player_edit_frame_witness:
  "\<not> isGM (user (world alice [alice, gm_user] [entry_tavern, entry_crypt]))
   \<and> truthy (editor_entry_id crypt_editor)
   \<and> findIndex (\<lambda>e. Some (entry_id e) = editor_entry_id crypt_editor)
        (getEntries (world alice [alice, gm_user] [entry_tavern, entry_crypt])) = Some 1
   \<and> form_title crypt_form = Some '' The Crypt''
   \<and> trim '' The Crypt'' = ''The Crypt''
   \<and> hidden entry_crypt
   \<and> gmNotes entry_crypt = Some ''The lich sleeps here''
   \<and> comments entry_crypt = Some [alice_comment, bob_comment]
   \<and> pendingDelete entry_crypt
   \<and> handleSave_entries (world alice [alice, gm_user] [entry_tavern, entry_crypt]) crypt_form
        crypt_editor 1700000000500 ''entry_new'' ''The Crypt'' ! 0 = entry_tavern
   \<and> hidden (handleSave_entries (world alice [alice, gm_user] [entry_tavern, entry_crypt])
        crypt_form crypt_editor 1700000000500 ''entry_new'' ''The Crypt'' ! 1) = True
   \<and> gmNotes (handleSave_entries (world alice [alice, gm_user] [entry_tavern, entry_crypt])
        crypt_form crypt_editor 1700000000500 ''entry_new'' ''The Crypt'' ! 1)
       = Some ''The lich sleeps here''
   \<and> comments (handleSave_entries (world alice [alice, gm_user] [entry_tavern, entry_crypt])
        crypt_form crypt_editor 1700000000500 ''entry_new'' ''The Crypt'' ! 1)
       = Some [alice_comment, bob_comment]
   \<and> entry_id (handleSave_entries (world alice [alice, gm_user] [entry_tavern, entry_crypt])
        crypt_form crypt_editor 1700000000500 ''entry_new'' ''The Crypt'' ! 1) = ''e5''
   \<and> createdAt (handleSave_entries (world alice [alice, gm_user] [entry_tavern, entry_crypt])
        crypt_form crypt_editor 1700000000500 ''entry_new'' ''The Crypt'' ! 1) = 1650000000000
   \<and> createdBy (handleSave_entries (world alice [alice, gm_user] [entry_tavern, entry_crypt])
        crypt_form crypt_editor 1700000000500 ''entry_new'' ''The Crypt'' ! 1) = ''Bob''
   \<and> title (handleSave_entries (world alice [alice, gm_user] [entry_tavern, entry_crypt])
        crypt_form crypt_editor 1700000000500 ''entry_new'' ''The Crypt'' ! 1) = ''The Crypt''
   \<and> category (handleSave_entries (world alice [alice, gm_user] [entry_tavern, entry_crypt])
        crypt_form crypt_editor 1700000000500 ''entry_new'' ''The Crypt'' ! 1) = ''locations''
   \<and> content (handleSave_entries (world alice [alice, gm_user] [entry_tavern, entry_crypt])
        crypt_form crypt_editor 1700000000500 ''entry_new'' ''The Crypt'' ! 1) = ''Cold and damp''
   \<and> updatedAt (handleSave_entries (world alice [alice, gm_user] [entry_tavern, entry_crypt])
        crypt_form crypt_editor 1700000000500 ''entry_new'' ''The Crypt'' ! 1) = 1700000000500
   \<and> updatedBy (handleSave_entries (world alice [alice, gm_user] [entry_tavern, entry_crypt])
        crypt_form crypt_editor 1700000000500 ''entry_new'' ''The Crypt'' ! 1) = ''Alice''
   \<and> pendingDelete (handleSave_entries (world alice [alice, gm_user] [entry_tavern, entry_crypt])
        crypt_form crypt_editor 1700000000500 ''entry_new'' ''The Crypt'' ! 1) = False
   \<and> fst (handleSave crypt_form crypt_editor 1700000000500 ''entry_new''
        (world alice [alice, gm_user] [entry_tavern, entry_crypt])) = Closed
   \<and> take 1 (emitted (snd (snd (handleSave crypt_form crypt_editor 1700000000500 ''entry_new''
        (world alice [alice, gm_user] [entry_tavern, entry_crypt])))))
       = [RequestSave (handleSave_entries (world alice [alice, gm_user] [entry_tavern, entry_crypt])
            crypt_form crypt_editor 1700000000500 ''entry_new'' ''The Crypt'')]"
proof -
  let ?W = "world alice [alice, gm_user] [entry_tavern, entry_crypt]"
  have p: "\<not> isGM (user ?W)"
    by (simp add: world_def alice_def)
  have e: "truthy (editor_entry_id crypt_editor)"
    by (simp add: crypt_editor_def truthy_def)
  have i: "findIndex (\<lambda>e. Some (entry_id e) = editor_entry_id crypt_editor) (getEntries ?W) = Some 1"
    by (simp add: crypt_editor_def getEntries_def world_def entry_tavern_def entry_crypt_def)
  have t: "form_title crypt_form = Some '' The Crypt''"
    by (simp add: crypt_form_def)
  have r: "trim '' The Crypt'' = ''The Crypt''"
    by (simp add: trim_def isWhiteSpace_def)
  have n: "trim '' The Crypt'' \<noteq> []"
    by (simp add: r)
  have g: "\<exists>u \<in> set (users ?W). isGM u \<and> active u"
    by (simp add: world_def gm_user_def)
  have o: "getEntries ?W ! 1 = entry_crypt" "getEntries ?W ! 0 = entry_tavern"
    "length (getEntries ?W) = 2" "emitted ?W = []" "user_name (user ?W) = ''Alice''"
    by (simp_all add: getEntries_def world_def alice_def)
  have c: "hidden entry_crypt" "gmNotes entry_crypt = Some ''The lich sleeps here''"
    "comments entry_crypt = Some [alice_comment, bob_comment]" "pendingDelete entry_crypt"
    "commentsOrEmpty entry_crypt = [alice_comment, bob_comment]"
    "entry_id entry_crypt = ''e5''" "createdAt entry_crypt = 1650000000000"
    "createdBy entry_crypt = ''Bob''"
    by (simp_all add: entry_crypt_def commentsOrEmpty_def)
  have f: "form_category crypt_form = ''locations''" "form_content crypt_form = ''Cold and damp''"
    by (simp_all add: crypt_form_def)
  note frame = player_edit_frame [OF p e i t n, of 1700000000500 "''entry_new''",
      unfolded r o c f]
  show ?thesis
    using frame p e i t g r c o(2) by simp
qed

section \<open>Comments: properties\<close>

text \<open>The flag \<^verbatim>\<open>canDelete\<close> of the projection: true for a GM and for the author.\<close>

lemma formatComments_canDelete:
  "map canDelete (formatComments h s cs gm)
     = map (\<lambda>c. gm \<or> comment_userId c = user_id (user s)) cs"
  by (simp add: formatComments_def comment.defs comment_view.defs)

text \<open>
  The collection built by \<^verbatim>\<open>_deleteComment\<close>: every other entry is as it was, and the
  entry at the index differs only in its comments, which are the former ones without
  those of the given id, in their order.
\<close>

lemma withoutComment_exact:
  assumes "idx < length es"
  shows "length (withoutComment idx commentId es) = length es"
    and "\<forall>j < length es. j \<noteq> idx \<longrightarrow> withoutComment idx commentId es ! j = es ! j"
    and "withoutComment idx commentId es ! idx
           = (es ! idx)\<lparr>comments :=
                Some (filter (\<lambda>c. comment_id c \<noteq> commentId) (commentsOrEmpty (es ! idx)))\<rparr>"
  using assms by (simp_all add: withoutComment_def)

text \<open>
  \<^verbatim>\<open>_deleteComment\<close> never reads the author of the comment: for every caller who is not
  a GM, with a GM connected, the collection without the comment is relayed.
\<close>

lemma deleteComment_relays_for_any_player:
  assumes "\<not> isGM (user s)"
    and "\<exists>u \<in> set (users s). isGM u \<and> active u"
    and "truthy (selectedEntry a)"
    and "findIndex (\<lambda>e. Some (entry_id e) = selectedEntry a) (getEntries s) = Some idx"
  shows "deleteComment a commentId s
           = socket_emit (RequestSave (withoutComment idx commentId (getEntries s))) s"
  using assms by (simp add: deleteComment_def saveEntries_relay)

text \<open>
  C6 at a failing input.  The entry \<^verbatim>\<open>e4\<close> carries a comment \<^verbatim>\<open>c1\<close> of the first
  player and a comment \<^verbatim>\<open>c2\<close> of the second.  The second player, who is neither a GM
  nor the author of \<^verbatim>\<open>c1\<close>, has \<^verbatim>\<open>e4\<close> selected, and a GM is connected.  The
  projection marks \<^verbatim>\<open>c1\<close> as not deletable for this player, but
  \<^verbatim>\<open>_deleteComment('c1')\<close> invoked by this player relays the collection in which \<^verbatim>\<open>e4\<close>
  has lost \<^verbatim>\<open>c1\<close> and kept \<^verbatim>\<open>c2\<close>, and the handler of the GM writes it.
\<close>

theorem non_author_deletes_comment:
  "\<not> isGM (user (world bob [alice, bob, gm_user] [entry_tavern, entry_market]))
   \<and> comment_userId alice_comment
       \<noteq> user_id (user (world bob [alice, bob, gm_user] [entry_tavern, entry_market]))
   \<and> commentsOrEmpty entry_market = [alice_comment, bob_comment]
   \<and> map canDelete
        (formatComments plain_host (world bob [alice, bob, gm_user] [entry_tavern, entry_market])
           (commentsOrEmpty entry_market) False)
       = [False, True]
   \<and> deleteComment market_viewer ''c1''
        (world bob [alice, bob, gm_user] [entry_tavern, entry_market])
       = (world bob [alice, bob, gm_user] [entry_tavern, entry_market])
           \<lparr>emitted :=
              [RequestSave [entry_tavern, entry_market\<lparr>comments := Some [bob_comment]\<rparr>]]\<rparr>
   \<and> wikiEntries
        (onSocket (RequestSave [entry_tavern, entry_market\<lparr>comments := Some [bob_comment]\<rparr>])
           (world gm_user [alice, bob, gm_user] [entry_tavern, entry_market]))
       = [entry_tavern, entry_market\<lparr>comments := Some [bob_comment]\<rparr>]"
  by code_simp

section \<open>Visibility and redaction: properties\<close>

text \<open>
  For a player no hidden entry is among the entries of the context, with or without a
  search query, in both revisions of \<^verbatim>\<open>_prepareContext\<close>.
\<close>

lemma player_listing_excludes_hidden:
  assumes "\<not> isGM (user s)"
  shows "(\<forall>e \<in> set (ctx_entries (snd (prepareContext h a s))). \<not> hidden e)
       \<and> (\<forall>ctx. snd (prepareContext_v1 h a s) = Inr ctx \<longrightarrow>
            (\<forall>e \<in> set (ctx_entries ctx). \<not> hidden e))"
  using assms
  by (auto simp: prepareContext_def prepareContext_v1_def Let_def assembleContext_def
      filterEntries_def withStatus_def entry.defs entry_status.defs split: if_splits)

text \<open>
  In the first revision a search that finds an entry ends in the \<^verbatim>\<open>ReferenceError\<close>: here
  the player searches for \<^verbatim>\<open>tavern\<close>.  The second revision returns the context.
\<close>

lemma first_revision_search_throws:
  "snd (prepareContext_v1 plain_host (viewer\<lparr>searchQuery := ''tavern''\<rparr>)
          (world alice [alice, gm_user] [entry_tavern, entry_vault])) = Inl ReferenceError
   \<and> map entry_id (ctx_entries (snd (prepareContext plain_host (viewer\<lparr>searchQuery := ''tavern''\<rparr>)
          (world alice [alice, gm_user] [entry_tavern, entry_vault])))) = [''e1'']"
  by code_simp

text \<open>
  C3 at a failing input.  The store holds the visible entry \<^verbatim>\<open>e1\<close>, whose text is
  \<^verbatim>\<open>See [[Secret Vault]]\<close>, and the hidden entry \<^verbatim>\<open>e2\<close> with the title
  \<^verbatim>\<open>Secret Vault\<close>.  A player has \<^verbatim>\<open>e1\<close> selected.  In both revisions the entries of
  the context are \<^verbatim>\<open>e1\<close> alone, and the reference is rendered as the resolved link that
  carries the id of the hidden entry, not as the broken link; the GM gets the same text.
\<close>

theorem hidden_link_resolved_for_player:
  "\<not> isGM (user (world alice [alice, gm_user] [entry_tavern, entry_vault]))
   \<and> hidden entry_vault
   \<and> ctx_enrichedContent (snd (prepareContext plain_host viewer
       (world alice [alice, gm_user] [entry_tavern, entry_vault])))
     = Some (''See '' @ linkResolved entry_vault ''Secret Vault'')
   \<and> ctx_enrichedContent (snd (prepareContext plain_host viewer
       (world alice [alice, gm_user] [entry_tavern, entry_vault])))
     \<noteq> Some (''See '' @ linkMissing ''Secret Vault'')
   \<and> map entry_id (ctx_entries (snd (prepareContext plain_host viewer
       (world alice [alice, gm_user] [entry_tavern, entry_vault])))) = [''e1'']
   \<and> (case snd (prepareContext_v1 plain_host viewer
               (world alice [alice, gm_user] [entry_tavern, entry_vault])) of
         Inl err \<Rightarrow> False
       | Inr ctx \<Rightarrow>
           ctx_enrichedContent ctx = Some (''See '' @ linkResolved entry_vault ''Secret Vault'')
           \<and> map entry_id (ctx_entries ctx) = [''e1''])
   \<and> ctx_enrichedContent (snd (prepareContext plain_host viewer
       (world gm_user [alice, gm_user] [entry_tavern, entry_vault])))
     = Some (''See '' @ linkResolved entry_vault ''Secret Vault'')"
  by code_simp

text \<open>
  C4 at a failing input.  In the same scenario the selected entry \<^verbatim>\<open>e1\<close> is stored with
  GM notes.  In the context of the player the top-level \<^verbatim>\<open>gmNotes\<close> is \<^verbatim>\<open>null\<close>, but
  the entry of the sidebar list and the object \<^verbatim>\<open>current\<close> both carry the field
  \<^verbatim>\<open>gmNotes\<close> with the stored text, in both revisions.
\<close>

theorem player_context_carries_gmNotes:
  "\<not> isGM (user (world alice [alice, gm_user] [entry_tavern, entry_vault]))
   \<and> map gmNotes (ctx_entries (snd (prepareContext plain_host viewer
       (world alice [alice, gm_user] [entry_tavern, entry_vault]))))
     = [Some ''The innkeeper is a spy'']
   \<and> map_option gmNotes (ctx_current (snd (prepareContext plain_host viewer
       (world alice [alice, gm_user] [entry_tavern, entry_vault]))))
     = Some (Some ''The innkeeper is a spy'')
   \<and> ctx_gmNotes (snd (prepareContext plain_host viewer
       (world alice [alice, gm_user] [entry_tavern, entry_vault]))) = None
   \<and> (case snd (prepareContext_v1 plain_host viewer
               (world alice [alice, gm_user] [entry_tavern, entry_vault])) of
         Inl err \<Rightarrow> False
       | Inr ctx \<Rightarrow>
           map gmNotes (ctx_entries ctx) = [Some ''The innkeeper is a spy'']
           \<and> map_option gmNotes (ctx_current ctx) = Some (Some ''The innkeeper is a spy'')
           \<and> ctx_gmNotes ctx = None)"
  by code_simp

section \<open>GM-only mutations: properties\<close>

text \<open>The hide toggle does nothing for a caller who is not a GM.\<close>

lemma toggleHidden_rejects_player: "\<not> isGM (user s) \<Longrightarrow> onClickToggleHidden a s = s"
  by (simp add: onClickToggleHidden_def)

text \<open>
  C5 at a failing input.  A player has the entry \<^verbatim>\<open>e1\<close> selected, a GM is connected, and
  the player confirms the dialog of the permanent deletion.  \<^verbatim>\<open>_onClickGmDelete\<close> does not
  look at the role: it initiates a save of the collection without \<^verbatim>\<open>e1\<close>, which is
  relayed as \<^verbatim>\<open>requestSave\<close>; the handler of the GM then writes it, and the entry is gone
  from the store.
\<close>

theorem player_delete_is_relayed:
  "\<not> isGM (user (world alice [alice, gm_user] [entry_tavern, entry_road]))
   \<and> onClickGmDelete True viewer (world alice [alice, gm_user] [entry_tavern, entry_road])
       = (viewer\<lparr>selectedEntry := None\<rparr>,
          (world alice [alice, gm_user] [entry_tavern, entry_road])
            \<lparr>emitted := [RequestSave [entry_road]]\<rparr>)
   \<and> wikiEntries (onSocket (RequestSave [entry_road])
                    (world gm_user [alice, gm_user] [entry_tavern, entry_road]))
       = [entry_road]"
  by code_simp

end
